theory Spec2Isabelle
  imports Complex_Main "HOL-Library.Sublist" "HOL-Library.Char_ord" "HOL-Library.List_Lexorder"
begin

section \<open>JavaScript strings\<close>

text \<open>
  A JavaScript string is a sequence of code units. It is modelled as a \<^typ>\<open>string\<close>, a
  list of 8-bit characters read as the code units 0 to 255 (Latin-1); code units above
  255 are outside the model. On this range \<open>toLowerCase\<close> maps A-Z and the capital
  letters U+00C0 to U+00DE, except the multiplication sign U+00D7, to the letter 32
  places further on, and leaves every other character alone. A value of type
  \<open>string | undefined\<close> is a \<^typ>\<open>string option\<close>; it is falsy when it is \<open>undefined\<close> or
  the empty string.
\<close>

definition toLowerChar :: "char \<Rightarrow> char" where
  "toLowerChar c =
     (if (CHR ''A'' \<le> c \<and> c \<le> CHR ''Z'')
         \<or> (CHR 0xC0 \<le> c \<and> c \<le> CHR 0xDE \<and> c \<noteq> CHR 0xD7)
      then char_of (of_char c + (32::nat)) else c)"

definition toLowerCase :: "string \<Rightarrow> string" where
  "toLowerCase s = map toLowerChar s"

definition startsWith :: "string \<Rightarrow> string \<Rightarrow> bool" where
  "startsWith s p = prefix p s"

text \<open>\<open>s.replace(pat, rep)\<close> with a string pattern: only the first occurrence is replaced.\<close>

fun str_replace :: "string \<Rightarrow> string \<Rightarrow> string \<Rightarrow> string" where
  "str_replace pat rep [] = (if pat = [] then rep else [])"
| "str_replace pat rep (c # cs) =
     (if prefix pat (c # cs) then rep @ drop (length pat) (c # cs)
      else c # str_replace pat rep cs)"

text \<open>\<open>s.includes(k)\<close>: \<open>k\<close> occurs in \<open>s\<close> as a contiguous piece.\<close>

fun str_includes :: "string \<Rightarrow> string \<Rightarrow> bool" where
  "str_includes [] k = (k = [])"
| "str_includes (c # cs) k = (prefix k (c # cs) \<or> str_includes cs k)"

text \<open>\<open>s.split(sep)\<close> for a one-character separator; the result always has at least one part.\<close>

fun str_split :: "char \<Rightarrow> string \<Rightarrow> string list" where
  "str_split sep [] = [[]]"
| "str_split sep (c # cs) =
     (if c = sep then [] # str_split sep cs
      else (case str_split sep cs of [] \<Rightarrow> [[c]] | p # ps \<Rightarrow> (c # p) # ps))"

text \<open>\<open>a || b\<close> on values of type \<open>string | undefined\<close>, and \<open>a || d\<close> with a string default.\<close>

definition truthy :: "string option \<Rightarrow> bool" where
  "truthy a = (case a of None \<Rightarrow> False | Some s \<Rightarrow> s \<noteq> [])"

definition orStr :: "string option \<Rightarrow> string option \<Rightarrow> string option" where
  "orStr a b = (if truthy a then a else b)"

definition orElse :: "string option \<Rightarrow> string \<Rightarrow> string" where
  "orElse a d = (case a of None \<Rightarrow> d | Some s \<Rightarrow> if s \<noteq> [] then s else d)"

text \<open>\<open>String(n)\<close> for an integer-valued number: decimal digits, with a leading minus sign.\<close>

definition digitChar :: "nat \<Rightarrow> char" where
  "digitChar d = char_of (48 + d)"

function natToString :: "nat \<Rightarrow> string" where
  "natToString n = (if n < 10 then [digitChar n] else natToString (n div 10) @ [digitChar (n mod 10)])"
  by pat_completeness auto
termination
  by (relation "measure id") auto

definition intToString :: "int \<Rightarrow> string" where
  "intToString i = (if i < 0 then CHR ''-'' # natToString (nat (- i)) else natToString (nat i))"

section \<open>Data model (types/index.ts)\<close>

datatype ChainType = Evm | Solana

datatype EVMChain = Ethereum | Polygon | Arbitrum | Optimism | Base | Zora

fun chainTypeStr :: "ChainType \<Rightarrow> string" where
  "chainTypeStr Evm = ''evm''"
| "chainTypeStr Solana = ''solana''"

fun evmChainStr :: "EVMChain \<Rightarrow> string" where
  "evmChainStr Ethereum = ''ethereum''"
| "evmChainStr Polygon = ''polygon''"
| "evmChainStr Arbitrum = ''arbitrum''"
| "evmChainStr Optimism = ''optimism''"
| "evmChainStr Base = ''base''"
| "evmChainStr Zora = ''zora''"

text \<open>
  Record fields carry a prefix naming their interface, since several interfaces share
  field names (\<open>id\<close>, \<open>name\<close>, \<open>description\<close>, ...). An optional field \<open>f?: T\<close> is a
  \<open>T option\<close>. A trait value is \<open>string | number\<close>; numeric trait values are taken to be
  integers. Prices and percentages are real numbers that the code only carries around;
  timestamps are integers (milliseconds).
\<close>

datatype AttrValue = StrValue string | NumValue int

record NFTAttribute =
  attr_trait_type :: string
  attr_value :: AttrValue
  attr_display_type :: "string option"

record FloorPrice =
  fp_amount :: real
  fp_currency :: string

record NFTCollection =
  coll_name :: string
  coll_address :: string
  coll_description :: "string option"
  coll_imageUrl :: "string option"
  coll_externalUrl :: "string option"
  coll_floorPrice :: "FloorPrice option"

record NFTMetadata =
  meta_attributes :: "NFTAttribute list option"
  meta_isFarcasterMint :: bool
  meta_farcasterChannel :: "string option"
  meta_mintedAt :: "int option"
  meta_creator :: "string option"
  meta_royalties :: "real option"

record NFT =
  nft_id :: string
  nft_walletId :: string
  nft_chain :: ChainType
  nft_evmChain :: "EVMChain option"
  nft_contractAddress :: string
  nft_tokenId :: string
  nft_name :: string
  nft_description :: "string option"
  nft_image :: string
  nft_imageOptimized :: "string option"
  nft_animationUrl :: "string option"
  nft_externalUrl :: "string option"
  nft_collection :: NFTCollection
  nft_metadata :: NFTMetadata
  nft_lastFetched :: int

text \<open>The provider record of the EVM indexing API (interface \<open>AlchemyNFT\<close>).\<close>

record AlchemyContract =
  ac_address :: string
  ac_name :: "string option"
  ac_symbol :: "string option"
  ac_totalSupply :: "string option"
  ac_tokenType :: string

record AlchemyMedia =
  media_raw :: string
  media_gateway :: string
  media_thumbnail :: "string option"
  media_format :: "string option"

record AlchemyMetadata =
  am_name :: "string option"
  am_description :: "string option"
  am_image :: "string option"
  am_external_url :: "string option"
  am_attributes :: "NFTAttribute list option"

record OpenSea =
  os_floorPrice :: "real option"
  os_collectionName :: "string option"
  os_imageUrl :: "string option"

record ContractMetadata =
  cm_name :: "string option"
  cm_symbol :: "string option"
  cm_totalSupply :: "string option"
  cm_tokenType :: string
  cm_openSea :: "OpenSea option"

record AlchemyNFT =
  a_contract :: AlchemyContract
  a_tokenId :: string
  a_tokenType :: string
  a_title :: string
  a_description :: "string option"
  a_tokenUri :: "string option"
  a_media :: "AlchemyMedia list"
  a_metadata :: AlchemyMetadata
  a_timeLastUpdated :: string
  a_contractMetadata :: "ContractMetadata option"

section \<open>Normalizer (services/nft/normalizer.ts)\<close>

definition normalizeImageUrl :: "string \<Rightarrow> string" where
  "normalizeImageUrl url =
     (if url = [] then []
      else if startsWith url ''ipfs://'' then
        ''https://ipfs.io/ipfs/'' @ str_replace ''ipfs://'' [] url
      else if startsWith url ''ar://'' then
        ''https://arweave.net/'' @ str_replace ''ar://'' [] url
      else url)"

text \<open>\<open>media?.[0]\<close>: the first element of the array, or \<open>undefined\<close>.\<close>

definition first :: "'a list \<Rightarrow> 'a option" where
  "first xs = (case xs of [] \<Rightarrow> None | x # _ \<Rightarrow> Some x)"

text \<open>
  \<open>fromAlchemy\<close> reads the clock (\<open>Date.now()\<close>) and parses a date
  (\<open>new Date(s).getTime()\<close>); both come from the runtime and are parameters here.
\<close>

definition fromAlchemy :: "(string \<Rightarrow> int) \<Rightarrow> int \<Rightarrow> AlchemyNFT \<Rightarrow> string \<Rightarrow> EVMChain \<Rightarrow> NFT" where
  "fromAlchemy getTime now alchemyNFT walletId chain =
     (let contractAddress = toLowerCase (ac_address (a_contract alchemyNFT));
          tokenId = a_tokenId alchemyNFT;
          ident = ''evm:'' @ evmChainStr chain @ '':'' @ contractAddress @ '':'' @ tokenId;
          media0 = first (a_media alchemyNFT);
          image = orElse (orStr (orStr (map_option media_gateway media0)
                                       (map_option media_raw media0))
                                (am_image (a_metadata alchemyNFT))) [];
          thumbnail = (case media0 of None \<Rightarrow> None | Some m \<Rightarrow> media_thumbnail m);
          openSea = (case a_contractMetadata alchemyNFT of None \<Rightarrow> None | Some cm \<Rightarrow> cm_openSea cm);
          floor = (case openSea of None \<Rightarrow> None | Some os \<Rightarrow> os_floorPrice os)
      in \<lparr> nft_id = ident,
           nft_walletId = walletId,
           nft_chain = Evm,
           nft_evmChain = Some chain,
           nft_contractAddress = contractAddress,
           nft_tokenId = tokenId,
           nft_name = orElse (orStr (Some (a_title alchemyNFT)) (am_name (a_metadata alchemyNFT)))
                             (''#'' @ tokenId),
           nft_description = orStr (a_description alchemyNFT) (am_description (a_metadata alchemyNFT)),
           nft_image = normalizeImageUrl image,
           nft_imageOptimized =
             (if truthy thumbnail then map_option normalizeImageUrl thumbnail else None),
           nft_animationUrl = None,
           nft_externalUrl = am_external_url (a_metadata alchemyNFT),
           nft_collection =
             \<lparr> coll_name = orElse (orStr (case a_contractMetadata alchemyNFT of
                                                None \<Rightarrow> None | Some cm \<Rightarrow> cm_name cm)
                                             (ac_name (a_contract alchemyNFT)))
                                      ''Unknown Collection'',
               coll_address = contractAddress,
               coll_description = None,
               coll_imageUrl = (case openSea of None \<Rightarrow> None | Some os \<Rightarrow> os_imageUrl os),
               coll_externalUrl = None,
               coll_floorPrice =
                 (case floor of
                    None \<Rightarrow> None
                  | Some amt \<Rightarrow>
                      if amt \<noteq> 0 then Some \<lparr> fp_amount = amt, fp_currency = ''ETH'' \<rparr>
                      else None) \<rparr>,
           nft_metadata =
             \<lparr> meta_attributes =
                 Some (case am_attributes (a_metadata alchemyNFT) of None \<Rightarrow> [] | Some as \<Rightarrow> as),
               meta_isFarcasterMint = False,
               meta_farcasterChannel = None,
               meta_mintedAt =
                 (if a_timeLastUpdated alchemyNFT \<noteq> []
                  then Some (getTime (a_timeLastUpdated alchemyNFT)) else None),
               meta_creator = None,
               meta_royalties = None \<rparr>,
           nft_lastFetched = now \<rparr>)"

text \<open>
  \<open>generateId\<close>: the optional \<open>evmChain\<close> is truthy whenever it is given, since no
  chain name is empty.
\<close>

definition generateId :: "ChainType \<Rightarrow> string \<Rightarrow> string \<Rightarrow> EVMChain option \<Rightarrow> string" where
  "generateId chain contractAddress tokenId evmChain =
     (case (chain, evmChain) of
        (Evm, Some e) \<Rightarrow>
          ''evm:'' @ evmChainStr e @ '':'' @ toLowerCase contractAddress @ '':'' @ tokenId
      | _ \<Rightarrow> chainTypeStr chain @ '':'' @ toLowerCase contractAddress @ '':'' @ tokenId)"

text \<open>
  The result of \<open>parseId\<close>. The code casts the second segment to \<open>EVMChain\<close> without
  checking it, so the field holds the raw segment. \<open>None\<close> is the \<open>null\<close> result.
\<close>

record ParsedId =
  pid_chain :: ChainType
  pid_evmChain :: "string option"
  pid_contractAddress :: string
  pid_tokenId :: string

definition parseId :: "string \<Rightarrow> ParsedId option" where
  "parseId ident =
     (let parts = str_split CHR '':'' ident in
      if first parts = Some ''evm'' \<and> length parts = 4 then
        Some \<lparr> pid_chain = Evm, pid_evmChain = Some (parts ! 1),
               pid_contractAddress = parts ! 2, pid_tokenId = parts ! 3 \<rparr>
      else if first parts = Some ''solana'' \<and> length parts = 2 then
        Some \<lparr> pid_chain = Solana, pid_evmChain = None,
               pid_contractAddress = parts ! 1, pid_tokenId = parts ! 1 \<rparr>
      else None)"

section \<open>Farcaster detector (services/nft/detector.ts)\<close>

definition FARCASTER_CONTRACTS :: "string list" where
  "FARCASTER_CONTRACTS =
     [''0x7c74dfe39976dc395529c14e54a597809980e01c'',
      ''0x04e2516a2c207e84a1839755675dfd8ef6302f0a'',
      ''0x8087039152c472fa74f47398628ff002994056ea'',
      ''0x86c1fe6c5b5c9f0c9b8c3a9b0b5e3e9c5c5c5c5c'']"

definition FARCASTER_KEYWORDS :: "string list" where
  "FARCASTER_KEYWORDS =
     [''farcaster'', ''warpcast'', ''fc channel'', ''/channel/'',
      ''minted on farcaster'', ''farcaster mint'']"

text \<open>\<open>String(attr.value)\<close> for a trait value.\<close>

fun valueToString :: "AttrValue \<Rightarrow> string" where
  "valueToString (StrValue s) = s"
| "valueToString (NumValue n) = intToString n"

definition hasKeywords :: "string option \<Rightarrow> bool" where
  "hasKeywords text =
     (case text of
        None \<Rightarrow> False
      | Some t \<Rightarrow>
          if t = [] then False
          else (let lowerText = toLowerCase t
                in list_ex (\<lambda>keyword. str_includes lowerText keyword) FARCASTER_KEYWORDS))"

definition hasAttributeKeywords :: "NFTAttribute list option \<Rightarrow> bool" where
  "hasAttributeKeywords attributes =
     (case attributes of
        None \<Rightarrow> False
      | Some attrs \<Rightarrow>
          list_ex (\<lambda>attr.
            let traitType = toLowerCase (attr_trait_type attr);
                val = toLowerCase (valueToString (attr_value attr))
            in list_ex (\<lambda>keyword. str_includes traitType keyword) FARCASTER_KEYWORDS
               \<or> list_ex (\<lambda>keyword. str_includes val keyword) FARCASTER_KEYWORDS) attrs)"

definition isFarcasterUrl :: "string option \<Rightarrow> bool" where
  "isFarcasterUrl url =
     (case url of
        None \<Rightarrow> False
      | Some u \<Rightarrow>
          if u = [] then False
          else (let lowerUrl = toLowerCase u
                in str_includes lowerUrl ''farcaster.xyz''
                   \<or> str_includes lowerUrl ''warpcast.com''
                   \<or> str_includes lowerUrl ''supercast.xyz''))"

text \<open>The Base-chain test is computed, as in the code, and then not used.\<close>

definition isFarcasterMint :: "NFT \<Rightarrow> bool" where
  "isFarcasterMint nft =
     (if toLowerCase (nft_contractAddress nft) \<in> set FARCASTER_CONTRACTS then True
      else (let isBaseChain = (nft_chain nft = Evm \<and> nft_evmChain nft = Some Base) in
        if hasKeywords (nft_description nft) then True
        else if hasAttributeKeywords (meta_attributes (nft_metadata nft)) then True
        else if isFarcasterUrl (nft_externalUrl nft) then True
        else if hasKeywords (Some (coll_name (nft_collection nft)))
                \<or> hasKeywords (coll_description (nft_collection nft)) then True
        else False))"

text \<open>
  The four channel patterns all have the same shape: a literal, optional white space
  (only in the last one), then the captured group \<open>([a-z0-9-]+)\<close>; the \<open>i\<close> flag makes
  both the literal and the character class case-insensitive. \<open>text.match(pattern)\<close>
  finds the leftmost position at which the pattern matches; the group is greedy.
  Within the code units 0 to 255, \<open>\s\<close> matches the space, the controls 9 to 13 and the
  no-break space U+00A0.
\<close>

datatype ChannelPattern = ChannelPattern string bool

definition CHANNEL_PATTERNS :: "ChannelPattern list" where
  "CHANNEL_PATTERNS =
     [ChannelPattern ''/'' False,
      ChannelPattern ''farcaster.xyz/'' False,
      ChannelPattern ''warpcast.com/~/'' False,
      ChannelPattern ''channel:'' True]"

definition isChannelChar :: "char \<Rightarrow> bool" where
  "isChannelChar c =
     ((CHR ''a'' \<le> c \<and> c \<le> CHR ''z'') \<or> (CHR ''A'' \<le> c \<and> c \<le> CHR ''Z'')
      \<or> (CHR ''0'' \<le> c \<and> c \<le> CHR ''9'') \<or> c = CHR ''-'')"

definition isSpace :: "char \<Rightarrow> bool" where
  "isSpace c =
     (c = CHR '' '' \<or> c = CHR 0xA0
      \<or> (9 \<le> (of_char c :: nat) \<and> (of_char c :: nat) \<le> 13))"

fun matchHere :: "ChannelPattern \<Rightarrow> string \<Rightarrow> string option" where
  "matchHere (ChannelPattern lit ws) s =
     (if length lit \<le> length s \<and> toLowerCase (take (length lit) s) = lit then
        (let rest = drop (length lit) s;
             rest' = (if ws then dropWhile isSpace rest else rest);
             g = takeWhile isChannelChar rest'
         in if g \<noteq> [] then Some g else None)
      else None)"

fun str_match :: "ChannelPattern \<Rightarrow> string \<Rightarrow> string option" where
  "str_match p [] = matchHere p []"
| "str_match p (c # cs) =
     (case matchHere p (c # cs) of Some g \<Rightarrow> Some g | None \<Rightarrow> str_match p cs)"

fun firstChannel :: "ChannelPattern list \<Rightarrow> string \<Rightarrow> string option" where
  "firstChannel [] t = None"
| "firstChannel (pattern # ps) t =
     (case str_match pattern t of
        Some g \<Rightarrow> if g \<noteq> [] then Some (toLowerCase g) else firstChannel ps t
      | None \<Rightarrow> firstChannel ps t)"

definition extractChannelFromText :: "string option \<Rightarrow> string option" where
  "extractChannelFromText text =
     (case text of
        None \<Rightarrow> None
      | Some t \<Rightarrow> if t = [] then None else firstChannel CHANNEL_PATTERNS t)"

definition extractChannel :: "NFT \<Rightarrow> string option" where
  "extractChannel nft =
     (let channel = extractChannelFromText (nft_description nft) in
      if truthy channel then channel
      else let channel = extractChannelFromText (nft_externalUrl nft) in
      if truthy channel then channel
      else let channelAttr =
                 (case meta_attributes (nft_metadata nft) of
                    None \<Rightarrow> None
                  | Some attrs \<Rightarrow>
                      find (\<lambda>attr. str_includes (toLowerCase (attr_trait_type attr)) ''channel''
                                   \<or> str_includes (toLowerCase (attr_trait_type attr)) ''farcaster'')
                           attrs);
               channel =
                 (case channelAttr of
                    None \<Rightarrow> None
                  | Some attr \<Rightarrow> extractChannelFromText (Some (valueToString (attr_value attr)))) in
      if truthy channel then channel
      else let channel = extractChannelFromText (Some (coll_name (nft_collection nft))) in
      if truthy channel then channel
      else let channel = extractChannelFromText (coll_description (nft_collection nft)) in
      if truthy channel then channel
      else None)"

definition enrichNFT :: "NFT \<Rightarrow> NFT" where
  "enrichNFT nft =
     (let isFM = isFarcasterMint nft;
          farcasterChannel = (if isFM then extractChannel nft else None)
      in nft\<lparr> nft_metadata :=
               (nft_metadata nft)\<lparr> meta_isFarcasterMint := isFM,
                                    meta_farcasterChannel := farcasterChannel \<rparr> \<rparr>)"

definition enrichNFTs :: "NFT list \<Rightarrow> NFT list" where
  "enrichNFTs nfts = map enrichNFT nfts"

text \<open>
  A JavaScript \<open>Set\<close> of strings keeps its elements in insertion order without
  duplicates. \<open>Array.prototype.sort()\<close> without a comparator orders strings by their
  code units, which is the lexicographic order on character lists.
\<close>

definition setAdd :: "'a \<Rightarrow> 'a list \<Rightarrow> 'a list" where
  "setAdd x xs = (if x \<in> set xs then xs else xs @ [x])"

definition getChannels :: "NFT list \<Rightarrow> string list" where
  "getChannels nfts =
     sort (foldl (\<lambda>channels nft.
                    case meta_farcasterChannel (nft_metadata nft) of
                      None \<Rightarrow> channels
                    | Some c \<Rightarrow> if c \<noteq> [] then setAdd c channels else channels)
                 []
                 (filter (\<lambda>nft. meta_isFarcasterMint (nft_metadata nft)) nfts))"

subsection \<open>The detection signals, as the specification lists them\<close>

text \<open>
  These predicates follow the wording of the specification, not the code: containment
  is \<^const>\<open>sublist\<close> on the lowercased text (the matching is case-insensitive), and the
  five signals are stated one by one.
\<close>

definition FARCASTER_DOMAINS :: "string list" where
  "FARCASTER_DOMAINS = [''farcaster.xyz'', ''warpcast.com'', ''supercast.xyz'']"

definition containsKeyword :: "string \<Rightarrow> bool" where
  "containsKeyword text = (\<exists>k \<in> set FARCASTER_KEYWORDS. sublist k (toLowerCase text))"

definition signalContract :: "NFT \<Rightarrow> bool" where
  "signalContract nft = (toLowerCase (nft_contractAddress nft) \<in> set FARCASTER_CONTRACTS)"

definition signalDescription :: "NFT \<Rightarrow> bool" where
  "signalDescription nft =
     (case nft_description nft of None \<Rightarrow> False | Some d \<Rightarrow> containsKeyword d)"

definition signalAttributes :: "NFT \<Rightarrow> bool" where
  "signalAttributes nft =
     (case meta_attributes (nft_metadata nft) of
        None \<Rightarrow> False
      | Some attrs \<Rightarrow>
          (\<exists>a \<in> set attrs. containsKeyword (attr_trait_type a)
                          \<or> containsKeyword (valueToString (attr_value a))))"

definition signalExternalUrl :: "NFT \<Rightarrow> bool" where
  "signalExternalUrl nft =
     (case nft_externalUrl nft of
        None \<Rightarrow> False
      | Some u \<Rightarrow> (\<exists>d \<in> set FARCASTER_DOMAINS. sublist d (toLowerCase u)))"

definition signalCollection :: "NFT \<Rightarrow> bool" where
  "signalCollection nft =
     (containsKeyword (coll_name (nft_collection nft))
      \<or> (case coll_description (nft_collection nft) of
            None \<Rightarrow> False | Some d \<Rightarrow> containsKeyword d))"

section \<open>Grid presentation (components/NFTGrid.tsx)\<close>

datatype SortMode = SortRecent | SortCollection | SortFarcaster | SortCustom | SortValue

datatype ViewMode = ViewGrid | ViewList

record SectionHeader =
  sh_title :: string
  sh_count :: "nat option"

text \<open>The display list holds NFTs and section headers; a header is told by its \<open>isHeader\<close> tag.\<close>

datatype ListItem = NFTItem NFT | HeaderItem SectionHeader

datatype error = TypeError

text \<open>
  A JavaScript \<open>Map\<close> is an association list in insertion order: \<open>set\<close> overwrites the
  entry of an existing key in place and appends a new key at the end, \<open>delete\<close> removes
  the key, \<open>get\<close> is \<^const>\<open>map_of\<close> and \<open>values()\<close> is \<open>map snd\<close>.
\<close>

fun mapSet :: "'k \<Rightarrow> 'v \<Rightarrow> ('k \<times> 'v) list \<Rightarrow> ('k \<times> 'v) list" where
  "mapSet k v [] = [(k, v)]"
| "mapSet k v ((k', v') # m) = (if k' = k then (k, v) # m else (k', v') # mapSet k v m)"

definition mapDelete :: "'k \<Rightarrow> ('k \<times> 'v) list \<Rightarrow> ('k \<times> 'v) list" where
  "mapDelete k m = filter (\<lambda>(k', v). k' \<noteq> k) m"

text \<open>
  \<open>Array.prototype.sort(cmp)\<close> is stable. It is modelled as a stable insertion sort;
  \<open>le a b\<close> stands for \<open>cmp(a, b) <= 0\<close>.
\<close>

fun insertBy :: "('a \<Rightarrow> 'a \<Rightarrow> bool) \<Rightarrow> 'a \<Rightarrow> 'a list \<Rightarrow> 'a list" where
  "insertBy le x [] = [x]"
| "insertBy le x (y # ys) = (if le x y then x # y # ys else y # insertBy le x ys)"

definition sortBy :: "('a \<Rightarrow> 'a \<Rightarrow> bool) \<Rightarrow> 'a list \<Rightarrow> 'a list" where
  "sortBy le xs = foldr (insertBy le) xs []"

text \<open>
  The grouping loop of the \<open>collection\<close> mode. \<open>collections.get(key)!.push(nft)\<close> raises a
  \<open>TypeError\<close> when the key is missing.
\<close>

fun groupByCollection ::
  "(string \<times> NFT list) list \<Rightarrow> NFT list \<Rightarrow> error + (string \<times> NFT list) list" where
  "groupByCollection collections [] = Inr collections"
| "groupByCollection collections (nft # rest) =
     (let key = coll_address (nft_collection nft);
          collections1 =
            (if map_of collections key = None then mapSet key [] collections else collections)
      in case map_of collections1 key of
           None \<Rightarrow> Inl TypeError
         | Some grp \<Rightarrow> groupByCollection (mapSet key (grp @ [nft]) collections1) rest)"

definition sectionItems :: "string \<Rightarrow> NFT list \<Rightarrow> ListItem list" where
  "sectionItems title members =
     HeaderItem \<lparr> sh_title = title, sh_count = Some (length members) \<rparr> # map NFTItem members"

definition floorAmount :: "NFT \<Rightarrow> real" where
  "floorAmount nft =
     (case coll_floorPrice (nft_collection nft) of
        None \<Rightarrow> 0
      | Some fp \<Rightarrow> fp_amount fp)"

text \<open>
  \<open>groupAndSortNFTs\<close>. \<open>localeCompare\<close> belongs to the runtime and is a parameter. In the
  \<open>collection\<close> mode both the comparator and the header read \<open>group[0].collection.name\<close>,
  which raises a \<open>TypeError\<close> on an empty group; the model raises it before sorting, so
  that \<^const>\<open>hd\<close> is applied to non-empty groups only.
\<close>

definition groupAndSortNFTs ::
  "(string \<Rightarrow> string \<Rightarrow> int) \<Rightarrow> NFT list \<Rightarrow> SortMode \<Rightarrow> error + ListItem list" where
  "groupAndSortNFTs localeCompare nfts sortMode =
     (case sortMode of
        SortCollection \<Rightarrow>
          (case groupByCollection [] nfts of
             Inl e \<Rightarrow> Inl e
           | Inr collections \<Rightarrow>
               if list_ex (\<lambda>(key, grp). grp = []) collections then Inl TypeError
               else
                 (let sortedCollections =
                        sortBy (\<lambda>(ka, a) (kb, b).
                                  localeCompare (coll_name (nft_collection (hd a)))
                                                (coll_name (nft_collection (hd b))) \<le> 0)
                               collections
                  in Inr (concat (map (\<lambda>(key, collectionNfts).
                                         sectionItems (coll_name (nft_collection (hd collectionNfts)))
                                                 collectionNfts)
                                      sortedCollections))))
      | SortFarcaster \<Rightarrow>
          (let farcasterNfts = filter (\<lambda>nft. meta_isFarcasterMint (nft_metadata nft)) nfts;
               otherNfts = filter (\<lambda>nft. \<not> meta_isFarcasterMint (nft_metadata nft)) nfts
           in Inr ((if farcasterNfts \<noteq> [] then sectionItems ''Farcaster Mints'' farcasterNfts else [])
                   @ (if otherNfts \<noteq> [] then sectionItems ''Other NFTs'' otherNfts else [])))
      | SortValue \<Rightarrow>
          Inr (map NFTItem (sortBy (\<lambda>a b. floorAmount b - floorAmount a \<le> 0) nfts))
      | _ \<Rightarrow>
          Inr (map NFTItem (sortBy (\<lambda>a b. nft_lastFetched b - nft_lastFetched a \<le> 0) nfts)))"

text \<open>The sum of the counts shown in the headers of a display list.\<close>

fun headerCounts :: "ListItem list \<Rightarrow> nat" where
  "headerCounts [] = 0"
| "headerCounts (HeaderItem h # items) =
     (case sh_count h of None \<Rightarrow> 0 | Some c \<Rightarrow> c) + headerCounts items"
| "headerCounts (NFTItem nft # items) = headerCounts items"

text \<open>
  \<open>membersMatchTitle\<close> walks a display list with the title of the last header seen:
  every NFT after a header has that header's title as its collection name.
\<close>

fun membersMatchTitle :: "string option \<Rightarrow> ListItem list \<Rightarrow> bool" where
  "membersMatchTitle cur [] = True"
| "membersMatchTitle cur (HeaderItem h # items) = membersMatchTitle (Some (sh_title h)) items"
| "membersMatchTitle cur (NFTItem nft # items) =
     ((case cur of None \<Rightarrow> True | Some t \<Rightarrow> coll_name (nft_collection nft) = t)
      \<and> membersMatchTitle cur items)"

text \<open>
  \<open>sectionsByAddress\<close> walks a display list with the collection address of the current
  section: a header is followed by an NFT whose collection name is the header's title,
  and every NFT up to the next header has the collection address of that first one.
\<close>

fun sectionsByAddress :: "string option \<Rightarrow> ListItem list \<Rightarrow> bool" where
  "sectionsByAddress cur [] = True"
| "sectionsByAddress cur (HeaderItem h # NFTItem nft # items) =
     (sh_title h = coll_name (nft_collection nft)
      \<and> sectionsByAddress (Some (coll_address (nft_collection nft))) items)"
| "sectionsByAddress cur (HeaderItem h # items) = False"
| "sectionsByAddress cur (NFTItem nft # items) =
     (cur = Some (coll_address (nft_collection nft)) \<and> sectionsByAddress cur items)"

text \<open>The number of NFTs held in the groups, and the invariant of the grouping loop.\<close>

definition groupSizes :: "(string \<times> NFT list) list \<Rightarrow> nat" where
  "groupSizes m = sum_list (map (\<lambda>(k, g). length g) m)"

definition groupsOk :: "(string \<times> NFT list) list \<Rightarrow> bool" where
  "groupsOk m =
     (\<forall>(k, g) \<in> set m. g \<noteq> [] \<and> (\<forall>n \<in> set g. coll_address (nft_collection n) = k))"

text \<open>A stand-in for \<open>localeCompare\<close> in the examples: comparison by character codes.\<close>

definition compareStrings :: "string \<Rightarrow> string \<Rightarrow> int" where
  "compareStrings a b = (if a < b then - 1 else if a = b then 0 else 1)"

section \<open>Store (store/index.ts)\<close>

record Wallet =
  w_id :: string
  w_address :: string
  w_chain :: ChainType
  w_evmChain :: "EVMChain option"
  w_label :: "string option"
  w_color :: "string option"
  w_addedAt :: nat
  w_isActive :: "bool option"

text \<open>The argument of \<open>addWallet\<close>: a wallet without \<open>id\<close> and \<open>addedAt\<close>.\<close>

record WalletInput =
  wi_address :: string
  wi_chain :: ChainType
  wi_evmChain :: "EVMChain option"
  wi_label :: "string option"
  wi_color :: "string option"
  wi_isActive :: "bool option"

record Collection =
  agg_id :: string
  agg_name :: string
  agg_contractAddress :: string
  agg_chain :: ChainType
  agg_evmChain :: "EVMChain option"
  agg_nftCount :: int
  agg_floorPrice :: "FloorPrice option"
  agg_imageUrl :: "string option"
  agg_description :: "string option"
  agg_externalUrl :: "string option"

record CustomGroup =
  cg_id :: string
  cg_name :: string
  cg_description :: "string option"
  cg_nftIds :: "string list"
  cg_color :: string
  cg_icon :: "string option"
  cg_createdAt :: nat
  cg_updatedAt :: nat

record FilterOptions =
  fo_collections :: "string list option"
  fo_farcaster :: "bool option"
  fo_customGroups :: "string list option"
  fo_chains :: "ChainType list option"
  fo_wallets :: "string list option"

datatype Theme = ThemeLight | ThemeDark | ThemeAuto

datatype ImageQuality = QualityLow | QualityMedium | QualityHigh

record AppSettings =
  set_refreshInterval :: real
  set_showFloorPrice :: bool
  set_theme :: Theme
  set_defaultView :: ViewMode
  set_defaultSort :: SortMode
  set_imageQuality :: ImageQuality
  set_enableNotifications :: bool

text \<open>
  What the NFT map holds at run time. \<open>updateNFT\<close> takes a \<open>Partial<NFT>\<close>, in which any
  field may be present with the value \<open>undefined\<close>, and the spread stores that value; so
  a stored record may have \<open>undefined\<close> (\<open>None\<close>) in any field, also in one that the
  interface \<open>NFT\<close> requires. \<open>toObject\<close> is the stored form of a well-typed \<open>NFT\<close>.
\<close>

record NFTObject =
  obj_id :: "string option"
  obj_walletId :: "string option"
  obj_chain :: "ChainType option"
  obj_evmChain :: "EVMChain option"
  obj_contractAddress :: "string option"
  obj_tokenId :: "string option"
  obj_name :: "string option"
  obj_description :: "string option"
  obj_image :: "string option"
  obj_imageOptimized :: "string option"
  obj_animationUrl :: "string option"
  obj_externalUrl :: "string option"
  obj_collection :: "NFTCollection option"
  obj_metadata :: "NFTMetadata option"
  obj_lastFetched :: "int option"

definition toObject :: "NFT \<Rightarrow> NFTObject" where
  "toObject nft =
     \<lparr> obj_id = Some (nft_id nft),
       obj_walletId = Some (nft_walletId nft),
       obj_chain = Some (nft_chain nft),
       obj_evmChain = nft_evmChain nft,
       obj_contractAddress = Some (nft_contractAddress nft),
       obj_tokenId = Some (nft_tokenId nft),
       obj_name = Some (nft_name nft),
       obj_description = nft_description nft,
       obj_image = Some (nft_image nft),
       obj_imageOptimized = nft_imageOptimized nft,
       obj_animationUrl = nft_animationUrl nft,
       obj_externalUrl = nft_externalUrl nft,
       obj_collection = Some (nft_collection nft),
       obj_metadata = Some (nft_metadata nft),
       obj_lastFetched = Some (nft_lastFetched nft) \<rparr>"

text \<open>The state of the store. The two \<open>Map\<close>s are association lists in insertion order.\<close>

record AppStore =
  st_wallets :: "Wallet list"
  st_activeWalletId :: "string option"
  st_nfts :: "(string \<times> NFTObject) list"
  st_collections :: "(string \<times> Collection) list"
  st_customGroups :: "CustomGroup list"
  st_viewMode :: ViewMode
  st_sortMode :: SortMode
  st_filterOptions :: FilterOptions
  st_settings :: AppSettings

definition defaultSettings :: AppSettings where
  "defaultSettings =
     \<lparr> set_refreshInterval = 5, set_showFloorPrice = True, set_theme = ThemeAuto,
       set_defaultView = ViewGrid, set_defaultSort = SortRecent,
       set_imageQuality = QualityMedium, set_enableNotifications = False \<rparr>"

definition initialState :: AppStore where
  "initialState =
     \<lparr> st_wallets = [], st_activeWalletId = None, st_nfts = [], st_collections = [],
       st_customGroups = [], st_viewMode = ViewGrid, st_sortMode = SortRecent,
       st_filterOptions = \<lparr> fo_collections = None, fo_farcaster = None, fo_customGroups = None,
                         fo_chains = None, fo_wallets = None \<rparr>,
       st_settings = defaultSettings \<rparr>"

text \<open>
  \<open>addWallet\<close> reads the clock twice (for the id and for \<open>addedAt\<close>) and draws a random
  string, \<open>Math.random().toString(36).substr(2, 9)\<close>; the three are parameters.
\<close>

definition newWalletId :: "nat \<Rightarrow> string \<Rightarrow> string" where
  "newWalletId idTime rnd = ''wallet_'' @ natToString idTime @ ''_'' @ rnd"

definition newWallet :: "nat \<Rightarrow> string \<Rightarrow> nat \<Rightarrow> WalletInput \<Rightarrow> Wallet" where
  "newWallet idTime rnd addedAt wallet =
     \<lparr> w_id = newWalletId idTime rnd,
       w_address = wi_address wallet,
       w_chain = wi_chain wallet,
       w_evmChain = wi_evmChain wallet,
       w_label = wi_label wallet,
       w_color = wi_color wallet,
       w_addedAt = addedAt,
       w_isActive = Some True \<rparr>"

definition addWallet :: "nat \<Rightarrow> string \<Rightarrow> nat \<Rightarrow> WalletInput \<Rightarrow> AppStore \<Rightarrow> AppStore" where
  "addWallet idTime rnd addedAt wallet state =
     state\<lparr> st_wallets := st_wallets state @ [newWallet idTime rnd addedAt wallet],
            st_activeWalletId := orStr (st_activeWalletId state) (Some (newWalletId idTime rnd)) \<rparr>"

text \<open>
  Removing the NFTs of a wallet, as \<open>setNFTs\<close> and \<open>removeNFTsByWallet\<close> both do it: the
  values are snapshot, filtered by wallet id, and each one is deleted under its own
  \<open>id\<close> field (not under the key it is stored at). Every key of the map is a string, so
  deleting the key \<open>undefined\<close> removes nothing.
\<close>

definition deleteWalletNFTs ::
  "string \<Rightarrow> (string \<times> NFTObject) list \<Rightarrow> (string \<times> NFTObject) list" where
  "deleteWalletNFTs walletId nftsMap =
     foldl (\<lambda>m nft. case obj_id nft of None \<Rightarrow> m | Some i \<Rightarrow> mapDelete i m) nftsMap
           (filter (\<lambda>nft. obj_walletId nft = Some walletId) (map snd nftsMap))"

definition collectionId :: "NFT \<Rightarrow> string" where
  "collectionId nft = chainTypeStr (nft_chain nft) @ '':'' @ nft_contractAddress nft"

text \<open>
  One round of the \<open>nfts.forEach\<close> loop of \<open>setNFTs\<close>, on the pair of new maps. The
  argument of \<open>setNFTs\<close> is an \<open>NFT[]\<close>, so the new records are well-typed.
\<close>

definition addNFT ::
  "(string \<times> NFTObject) list \<times> (string \<times> Collection) list \<Rightarrow> NFT \<Rightarrow>
   (string \<times> NFTObject) list \<times> (string \<times> Collection) list" where
  "addNFT maps nft =
     (let newNftsMap = mapSet (nft_id nft) (toObject nft) (fst maps);
          existing = map_of (snd maps) (collectionId nft)
      in case existing of
           None \<Rightarrow>
             (newNftsMap,
              mapSet (collectionId nft)
                \<lparr> agg_id = collectionId nft,
                  agg_name = coll_name (nft_collection nft),
                  agg_contractAddress = nft_contractAddress nft,
                  agg_chain = nft_chain nft,
                  agg_evmChain = nft_evmChain nft,
                  agg_nftCount = 1,
                  agg_floorPrice = coll_floorPrice (nft_collection nft),
                  agg_imageUrl = coll_imageUrl (nft_collection nft),
                  agg_description = coll_description (nft_collection nft),
                  agg_externalUrl = None \<rparr>
                (snd maps))
         | Some ex \<Rightarrow>
             (newNftsMap,
              mapSet (collectionId nft) (ex\<lparr> agg_nftCount := agg_nftCount ex + 1 \<rparr>) (snd maps)))"

definition setNFTs :: "string \<Rightarrow> NFT list \<Rightarrow> AppStore \<Rightarrow> AppStore" where
  "setNFTs walletId newNfts state =
     (let maps = foldl addNFT (deleteWalletNFTs walletId (st_nfts state), st_collections state)
                       newNfts
      in state\<lparr> st_nfts := fst maps, st_collections := snd maps \<rparr>)"

definition removeNFTsByWallet :: "string \<Rightarrow> AppStore \<Rightarrow> AppStore" where
  "removeNFTsByWallet walletId state =
     state\<lparr> st_nfts := deleteWalletNFTs walletId (st_nfts state) \<rparr>"

definition getNFTsByWallet :: "string \<Rightarrow> AppStore \<Rightarrow> NFTObject list" where
  "getNFTsByWallet walletId state =
     filter (\<lambda>nft. obj_walletId nft = Some walletId) (map snd (st_nfts state))"

text \<open>
  \<open>Partial<NFT>\<close>: each field may be absent (\<open>None\<close>), or present with a value, which may
  be \<open>undefined\<close> (\<open>Some None\<close>). The spread \<open>{ ...existing, ...updates }\<close> takes every
  field that is present in \<open>updates\<close> from there, whatever its value, and the others
  from \<open>existing\<close>; nested objects are replaced whole.
\<close>

record NFTUpdates =
  up_id :: "string option option"
  up_walletId :: "string option option"
  up_chain :: "ChainType option option"
  up_evmChain :: "EVMChain option option"
  up_contractAddress :: "string option option"
  up_tokenId :: "string option option"
  up_name :: "string option option"
  up_description :: "string option option"
  up_image :: "string option option"
  up_imageOptimized :: "string option option"
  up_animationUrl :: "string option option"
  up_externalUrl :: "string option option"
  up_collection :: "NFTCollection option option"
  up_metadata :: "NFTMetadata option option"
  up_lastFetched :: "int option option"

definition spread :: "'a \<Rightarrow> 'a option \<Rightarrow> 'a" where
  "spread old new = (case new of None \<Rightarrow> old | Some v \<Rightarrow> v)"

definition mergeNFT :: "NFTObject \<Rightarrow> NFTUpdates \<Rightarrow> NFTObject" where
  "mergeNFT existing updates =
     \<lparr> obj_id = spread (obj_id existing) (up_id updates),
       obj_walletId = spread (obj_walletId existing) (up_walletId updates),
       obj_chain = spread (obj_chain existing) (up_chain updates),
       obj_evmChain = spread (obj_evmChain existing) (up_evmChain updates),
       obj_contractAddress = spread (obj_contractAddress existing) (up_contractAddress updates),
       obj_tokenId = spread (obj_tokenId existing) (up_tokenId updates),
       obj_name = spread (obj_name existing) (up_name updates),
       obj_description = spread (obj_description existing) (up_description updates),
       obj_image = spread (obj_image existing) (up_image updates),
       obj_imageOptimized = spread (obj_imageOptimized existing) (up_imageOptimized updates),
       obj_animationUrl = spread (obj_animationUrl existing) (up_animationUrl updates),
       obj_externalUrl = spread (obj_externalUrl existing) (up_externalUrl updates),
       obj_collection = spread (obj_collection existing) (up_collection updates),
       obj_metadata = spread (obj_metadata existing) (up_metadata updates),
       obj_lastFetched = spread (obj_lastFetched existing) (up_lastFetched updates) \<rparr>"

definition updateNFT :: "string \<Rightarrow> NFTUpdates \<Rightarrow> AppStore \<Rightarrow> AppStore" where
  "updateNFT ident updates state =
     (case map_of (st_nfts state) ident of
        None \<Rightarrow> state\<lparr> st_nfts := st_nfts state \<rparr>
      | Some existing \<Rightarrow>
          state\<lparr> st_nfts := mapSet ident (mergeNFT existing updates) (st_nfts state) \<rparr>)"

text \<open>Every NFT of the given wallet is stored under its own id.\<close>

definition keyedFor :: "string \<Rightarrow> (string \<times> NFTObject) list \<Rightarrow> bool" where
  "keyedFor walletId nftsMap =
     list_all (\<lambda>(k, nft). obj_walletId nft = Some walletId \<longrightarrow> obj_id nft = Some k) nftsMap"

section \<open>Sample records\<close>

text \<open>A record on the Base chain that carries no Farcaster signal, used in the examples.\<close>

definition sampleNFT :: NFT where
  "sampleNFT =
     \<lparr> nft_id = ''evm:base:0xaa:1'', nft_walletId = ''w1'', nft_chain = Evm,
       nft_evmChain = Some Base, nft_contractAddress = ''0xaa'', nft_tokenId = ''1'',
       nft_name = ''One'', nft_description = None, nft_image = [],
       nft_imageOptimized = None, nft_animationUrl = None, nft_externalUrl = None,
       nft_collection =
         \<lparr> coll_name = ''Club'', coll_address = ''0xaa'', coll_description = None,
           coll_imageUrl = None, coll_externalUrl = None, coll_floorPrice = None \<rparr>,
       nft_metadata =
         \<lparr> meta_attributes = None, meta_isFarcasterMint = False,
           meta_farcasterChannel = None, meta_mintedAt = None, meta_creator = None,
           meta_royalties = None \<rparr>,
       nft_lastFetched = 0 \<rparr>"

definition withChannel :: "bool \<Rightarrow> string option \<Rightarrow> NFT \<Rightarrow> NFT" where
  "withChannel flag ch nft =
     nft\<lparr> nft_metadata := (nft_metadata nft)\<lparr> meta_isFarcasterMint := flag,
                                                meta_farcasterChannel := ch \<rparr> \<rparr>"

definition inCollection :: "string \<Rightarrow> string \<Rightarrow> NFT \<Rightarrow> NFT" where
  "inCollection addr nm nft =
     nft\<lparr> nft_collection := (nft_collection nft)\<lparr> coll_address := addr, coll_name := nm \<rparr> \<rparr>"

definition noUpdates :: NFTUpdates where
  "noUpdates =
     \<lparr> up_id = None, up_walletId = None, up_chain = None, up_evmChain = None,
       up_contractAddress = None, up_tokenId = None, up_name = None, up_description = None,
       up_image = None, up_imageOptimized = None, up_animationUrl = None,
       up_externalUrl = None, up_collection = None, up_metadata = None,
       up_lastFetched = None \<rparr>"

definition sampleWallet :: WalletInput where
  "sampleWallet =
     \<lparr> wi_address = ''0x1111'', wi_chain = Evm, wi_evmChain = Some Base,
       wi_label = None, wi_color = None, wi_isActive = None \<rparr>"

text \<open>
  Two store states: one holding a sample record with a description under its id, and one reached from the
  initial state by storing a record under the id \<open>k1\<close> and then changing its \<open>id\<close>
  field to \<open>k2\<close> with \<open>updateNFT\<close>, so that the record is no longer stored under its own
  id.
\<close>

definition storedNFT :: NFT where
  "storedNFT = sampleNFT\<lparr> nft_description := Some ''An old text'' \<rparr>"

definition sampleState :: AppStore where
  "sampleState = setNFTs ''w1'' [storedNFT] initialState"

definition skewedState :: AppStore where
  "skewedState =
     updateNFT ''k1'' (noUpdates\<lparr> up_id := Some (Some ''k2'') \<rparr>)
       (setNFTs ''w1'' [sampleNFT\<lparr> nft_id := ''k1'' \<rparr>] initialState)"

text \<open>An update that sets the name, clears the description and sets the token id to \<open>undefined\<close>.\<close>

definition sampleUpdates :: NFTUpdates where
  "sampleUpdates =
     noUpdates\<lparr> up_name := Some (Some ''Two''), up_description := Some None,
                up_tokenId := Some None, up_lastFetched := Some (Some 5) \<rparr>"

section \<open>Properties of the normalizer\<close>

lemma str_replace_prefix: "pat \<noteq> [] \<Longrightarrow> str_replace pat rep (pat @ s) = rep @ s"
  by (cases pat) simp_all

lemma normalizeImageUrl_cases:
  "normalizeImageUrl url = [] \<or> prefix ''https://'' (normalizeImageUrl url)
     \<or> (normalizeImageUrl url = url \<and> \<not> startsWith url ''ipfs://'' \<and> \<not> startsWith url ''ar://'')"
  by (simp add: normalizeImageUrl_def)

lemma normalizeImageUrl_https:
  "prefix ''https://'' u \<Longrightarrow> normalizeImageUrl u = u"
  by (auto simp: normalizeImageUrl_def startsWith_def prefix_def)

text \<open>
  C6. \<open>normalizeImageUrl\<close> is idempotent on every string: normalizing a normalized URL
  changes nothing. This covers the \<open>ipfs://\<close> and \<open>ar://\<close> rewrites, the pass-through of
  any other string and the empty string.
\<close>

theorem normalizeImageUrl_idempotent:
  "normalizeImageUrl (normalizeImageUrl url) = normalizeImageUrl url"
  using normalizeImageUrl_cases [of url]
  by (auto simp: normalizeImageUrl_https) (simp add: normalizeImageUrl_def)+

lemma toLowerCase_0xABC: "toLowerCase ''0xABC'' = ''0xabc''"
  by code_simp

text \<open>
  C7. Normalizing an EVM provider record with \<open>media: []\<close>, \<open>metadata.image: "ipfs://abc"\<close>,
  contract address \<open>0xABC\<close>, token id \<open>"7"\<close> and chain \<open>ethereum\<close> yields the id
  \<open>evm:ethereum:0xabc:7\<close> and the image \<open>https://ipfs.io/ipfs/abc\<close>, whatever the other
  fields of the record, the wallet id and the clock are.
\<close>

theorem fromAlchemy_scenario:
  "nft_id (fromAlchemy getTime now
       (r\<lparr> a_contract := (a_contract r)\<lparr> ac_address := ''0xABC'' \<rparr>,
           a_tokenId := ''7'',
           a_media := [],
           a_metadata := (a_metadata r)\<lparr> am_image := Some ''ipfs://abc'' \<rparr> \<rparr>)
       walletId Ethereum) = ''evm:ethereum:0xabc:7''
   \<and> nft_image (fromAlchemy getTime now
       (r\<lparr> a_contract := (a_contract r)\<lparr> ac_address := ''0xABC'' \<rparr>,
           a_tokenId := ''7'',
           a_media := [],
           a_metadata := (a_metadata r)\<lparr> am_image := Some ''ipfs://abc'' \<rparr> \<rparr>)
       walletId Ethereum) = ''https://ipfs.io/ipfs/abc''"
  by (simp add: fromAlchemy_def Let_def first_def orStr_def orElse_def truthy_def
      normalizeImageUrl_def startsWith_def toLowerCase_0xABC)

subsection \<open>Composite ids\<close>

lemma toLowerChar_colon: "toLowerChar c = CHR '':'' \<longleftrightarrow> c = CHR '':''"
proof -
  have "char_of (of_char c + (32::nat)) \<noteq> CHR '':''"
    if "(CHR ''A'' \<le> c \<and> c \<le> CHR ''Z'') \<or> (CHR 0xC0 \<le> c \<and> c \<le> CHR 0xDE \<and> c \<noteq> CHR 0xD7)"
  proof
    assume "char_of (of_char c + (32::nat)) = CHR '':''"
    then have "(of_char (char_of (of_char c + (32::nat))) :: nat) = of_char CHR '':''"
      by simp
    then have "(of_char c + (32::nat)) mod 256 = 58"
      by (simp only: of_char_of) simp
    moreover from that
    have "(65 \<le> (of_char c :: nat) \<and> (of_char c :: nat) \<le> 90)
          \<or> (192 \<le> (of_char c :: nat) \<and> (of_char c :: nat) \<le> 222)"
      by (auto simp: less_eq_char_def)
    ultimately show False by auto
  qed
  moreover have "\<not> (CHR ''A'' \<le> CHR '':'')" "\<not> (CHR 0xC0 \<le> CHR '':'')" by simp_all
  ultimately show ?thesis by (auto simp: toLowerChar_def)
qed

lemma toLowerCase_colon: "CHR '':'' \<in> set (toLowerCase s) \<longleftrightarrow> CHR '':'' \<in> set s"
proof -
  have "CHR '':'' \<in> set (toLowerCase s) \<longleftrightarrow> (\<exists>x\<in>set s. toLowerChar x = CHR '':'')"
    unfolding toLowerCase_def set_map image_iff by (rule bex_cong) auto
  then show ?thesis
    by (simp add: toLowerChar_colon)
qed

lemma evmChainStr_colon: "CHR '':'' \<notin> set (evmChainStr e)"
  by (cases e) simp_all

lemma str_split_none: "sep \<notin> set s \<Longrightarrow> str_split sep s = [s]"
  by (induction s) auto

lemma str_split_append: "sep \<notin> set a \<Longrightarrow> str_split sep (a @ sep # b) = a # str_split sep b"
  by (induction a) auto

lemma generateId_evm:
  "generateId Evm c t (Some e) =
     ''evm'' @ CHR '':'' # evmChainStr e @ CHR '':'' # toLowerCase c @ CHR '':'' # t"
  by (simp add: generateId_def)

text \<open>
  C1 (as amended). For chain \<open>evm\<close> with an \<open>evmChain\<close> given, and a contract address and
  token id that contain no colon, \<open>parseId\<close> of the generated id is the original tuple with
  the contract address lowercased.
\<close>

theorem parseId_generateId_evm:
  assumes "CHR '':'' \<notin> set contractAddress" and "CHR '':'' \<notin> set tokenId"
  shows "parseId (generateId Evm contractAddress tokenId (Some e)) =
           Some \<lparr> pid_chain = Evm, pid_evmChain = Some (evmChainStr e),
                  pid_contractAddress = toLowerCase contractAddress, pid_tokenId = tokenId \<rparr>"
proof -
  have c: "CHR '':'' \<notin> set (toLowerCase contractAddress)"
    using assms(1) by (simp add: toLowerCase_colon)
  have "str_split CHR '':'' (generateId Evm contractAddress tokenId (Some e)) =
          [''evm'', evmChainStr e, toLowerCase contractAddress, tokenId]"
    unfolding generateId_evm
    by (simp add: str_split_append [OF evmChainStr_colon] str_split_append [OF c]
        str_split_none [OF assms(2)] str_split_append [of _ "''evm''"])
  then show ?thesis
    by (simp add: parseId_def first_def)
qed

theorem parseId_generateId_evm_witness:
  "CHR '':'' \<notin> set ''0xABC'' \<and> CHR '':'' \<notin> set ''7''
   \<and> parseId (generateId Evm ''0xABC'' ''7'' (Some Ethereum)) =
       Some \<lparr> pid_chain = Evm, pid_evmChain = Some ''ethereum'',
              pid_contractAddress = ''0xabc'', pid_tokenId = ''7'' \<rparr>"
  using parseId_generateId_evm [of "''0xABC''" "''7''" Ethereum]
  by (simp add: toLowerCase_0xABC)

text \<open>
  The round trip as the specification states it fails: for chain \<open>solana\<close> the generated id has
  three segments, which \<open>parseId\<close> does not recognise, and for chain \<open>evm\<close> a colon in the
  token id yields five segments.
\<close>

theorem parseId_generateId_counterexample:
  "parseId (generateId Solana ''abc'' ''abc'' None) = None
   \<and> parseId (generateId Evm ''0xab'' ''1:2'' (Some Ethereum)) = None"
  by (simp add: parseId_def generateId_def toLowerCase_def toLowerChar_def)

section \<open>Properties of the detector\<close>

lemma str_includes_sublist: "str_includes s k \<longleftrightarrow> sublist k s"
  by (induction s) (auto simp: sublist_Cons_right)

lemma containsKeyword_Nil: "\<not> containsKeyword []"
  by (simp add: containsKeyword_def FARCASTER_KEYWORDS_def toLowerCase_def)

lemma hasKeywords_Some: "hasKeywords (Some t) \<longleftrightarrow> containsKeyword t"
  by (cases "t = []")
     (simp_all add: hasKeywords_def containsKeyword_Nil,
      simp add: containsKeyword_def list_ex_iff str_includes_sublist)

lemma hasKeywords_None: "\<not> hasKeywords None"
  by (simp add: hasKeywords_def)

lemma hasAttributeKeywords_iff:
  "hasAttributeKeywords as \<longleftrightarrow>
     (case as of None \<Rightarrow> False
      | Some attrs \<Rightarrow> (\<exists>a \<in> set attrs. containsKeyword (attr_trait_type a)
                          \<or> containsKeyword (valueToString (attr_value a))))"
  by (simp add: hasAttributeKeywords_def containsKeyword_def list_ex_iff str_includes_sublist
      Let_def split: option.splits)

lemma isFarcasterUrl_iff:
  "isFarcasterUrl url \<longleftrightarrow>
     (case url of None \<Rightarrow> False
      | Some u \<Rightarrow> (\<exists>d \<in> set FARCASTER_DOMAINS. sublist d (toLowerCase u)))"
  by (auto simp: isFarcasterUrl_def FARCASTER_DOMAINS_def str_includes_sublist Let_def
      toLowerCase_def split: option.splits)

text \<open>
  C3. \<open>isFarcasterMint\<close> is true exactly when at least one of the five signals holds:
  the lowercased contract address is on the allow-list, the description contains a
  keyword, some attribute's trait type or stringified value contains a keyword, the
  external URL contains one of the three domains, or the collection name or description
  contains a keyword (all matching is on the lowercased text). The chain fields play no
  part: replacing them, for instance by the Base chain, never changes the result.
\<close>

theorem isFarcasterMint_iff_signals:
  "(isFarcasterMint nft \<longleftrightarrow>
      signalContract nft \<or> signalDescription nft \<or> signalAttributes nft
      \<or> signalExternalUrl nft \<or> signalCollection nft)
   \<and> isFarcasterMint (nft\<lparr> nft_chain := c, nft_evmChain := e \<rparr>) = isFarcasterMint nft"
proof
  show "isFarcasterMint nft \<longleftrightarrow>
      signalContract nft \<or> signalDescription nft \<or> signalAttributes nft
      \<or> signalExternalUrl nft \<or> signalCollection nft"
    by (simp add: isFarcasterMint_def signalContract_def signalDescription_def
        signalAttributes_def signalExternalUrl_def signalCollection_def
        hasKeywords_Some hasKeywords_None hasAttributeKeywords_iff isFarcasterUrl_iff
        split: option.splits)
  show "isFarcasterMint (nft\<lparr> nft_chain := c, nft_evmChain := e \<rparr>) = isFarcasterMint nft"
    by (simp add: isFarcasterMint_def)
qed

lemma sample_signals:
  "signalCollection (sampleNFT\<lparr> nft_collection :=
      (nft_collection sampleNFT)\<lparr> coll_name := ''Farcaster Mint Club'' \<rparr> \<rparr>)"
  "\<not> signalContract sampleNFT" "\<not> signalDescription sampleNFT"
  "\<not> signalAttributes sampleNFT" "\<not> signalExternalUrl sampleNFT"
  "\<not> signalCollection sampleNFT"
  by code_simp+

text \<open>
  A record whose only signal is the collection name \<open>Farcaster Mint Club\<close> is a Farcaster
  mint; the sample record, on the Base chain with no signal, is not.
\<close>

theorem isFarcasterMint_iff_signals_witness:
  "isFarcasterMint (sampleNFT\<lparr> nft_collection :=
      (nft_collection sampleNFT)\<lparr> coll_name := ''Farcaster Mint Club'' \<rparr> \<rparr>)
   \<and> nft_chain sampleNFT = Evm \<and> nft_evmChain sampleNFT = Some Base
   \<and> \<not> isFarcasterMint sampleNFT"
  using isFarcasterMint_iff_signals [of "sampleNFT\<lparr> nft_collection :=
      (nft_collection sampleNFT)\<lparr> coll_name := ''Farcaster Mint Club'' \<rparr> \<rparr>"]
    isFarcasterMint_iff_signals [of sampleNFT] sample_signals
  by (simp add: sampleNFT_def)

text \<open>
  C9. \<open>enrichNFT\<close> changes nothing but \<open>metadata.isFarcasterMint\<close> and
  \<open>metadata.farcasterChannel\<close>: every other field of the record, and every other field of
  its metadata, is the input's.
\<close>

theorem enrichNFT_frame:
  "nft_id (enrichNFT nft) = nft_id nft
   \<and> nft_walletId (enrichNFT nft) = nft_walletId nft
   \<and> nft_chain (enrichNFT nft) = nft_chain nft
   \<and> nft_evmChain (enrichNFT nft) = nft_evmChain nft
   \<and> nft_contractAddress (enrichNFT nft) = nft_contractAddress nft
   \<and> nft_tokenId (enrichNFT nft) = nft_tokenId nft
   \<and> nft_name (enrichNFT nft) = nft_name nft
   \<and> nft_description (enrichNFT nft) = nft_description nft
   \<and> nft_image (enrichNFT nft) = nft_image nft
   \<and> nft_imageOptimized (enrichNFT nft) = nft_imageOptimized nft
   \<and> nft_animationUrl (enrichNFT nft) = nft_animationUrl nft
   \<and> nft_externalUrl (enrichNFT nft) = nft_externalUrl nft
   \<and> nft_collection (enrichNFT nft) = nft_collection nft
   \<and> nft_lastFetched (enrichNFT nft) = nft_lastFetched nft
   \<and> meta_attributes (nft_metadata (enrichNFT nft)) = meta_attributes (nft_metadata nft)
   \<and> meta_mintedAt (nft_metadata (enrichNFT nft)) = meta_mintedAt (nft_metadata nft)
   \<and> meta_creator (nft_metadata (enrichNFT nft)) = meta_creator (nft_metadata nft)
   \<and> meta_royalties (nft_metadata (enrichNFT nft)) = meta_royalties (nft_metadata nft)"
  by (simp add: enrichNFT_def Let_def)

subsection \<open>Channel listing\<close>

lemma set_foldl_channels:
  "set (foldl (\<lambda>channels nft.
                 case meta_farcasterChannel (nft_metadata nft) of
                   None \<Rightarrow> channels
                 | Some c \<Rightarrow> if c \<noteq> [] then setAdd c channels else channels) acc xs)
   = set acc \<union> {c. c \<noteq> [] \<and> (\<exists>n\<in>set xs. meta_farcasterChannel (nft_metadata n) = Some c)}"
  by (induction xs arbitrary: acc) (auto simp: setAdd_def split: option.splits)

lemma distinct_foldl_channels:
  "distinct acc \<Longrightarrow>
   distinct (foldl (\<lambda>channels nft.
                      case meta_farcasterChannel (nft_metadata nft) of
                        None \<Rightarrow> channels
                      | Some c \<Rightarrow> if c \<noteq> [] then setAdd c channels else channels) acc xs)"
  by (induction xs arbitrary: acc) (auto simp: setAdd_def split: option.splits)

text \<open>
  C5 (as amended). \<open>getChannels\<close> returns exactly the non-empty channel names of the
  elements that are flagged \<open>isFarcasterMint\<close>, in ascending lexicographic order and
  without duplicates.
\<close>

theorem getChannels_flagged:
  "set (getChannels nfts) =
     {c. c \<noteq> [] \<and> (\<exists>n\<in>set nfts. meta_isFarcasterMint (nft_metadata n)
                                   \<and> meta_farcasterChannel (nft_metadata n) = Some c)}
   \<and> sorted (getChannels nfts) \<and> distinct (getChannels nfts)"
  by (auto simp: getChannels_def set_foldl_channels distinct_foldl_channels)

lemma getChannels_sample:
  "getChannels [withChannel True (Some ''memes'') sampleNFT,
                withChannel True (Some ''art'') sampleNFT,
                withChannel False (Some ''zora'') sampleNFT,
                withChannel True (Some []) sampleNFT,
                withChannel True (Some ''memes'') sampleNFT] = [''art'', ''memes'']"
  by (simp add: getChannels_def withChannel_def setAdd_def)

theorem getChannels_flagged_witness:
  "set [''art'', ''memes''] =
     {c. c \<noteq> [] \<and> (\<exists>n\<in>set [withChannel True (Some ''memes'') sampleNFT,
                                withChannel True (Some ''art'') sampleNFT,
                                withChannel False (Some ''zora'') sampleNFT,
                                withChannel True (Some []) sampleNFT,
                                withChannel True (Some ''memes'') sampleNFT].
                        meta_isFarcasterMint (nft_metadata n)
                        \<and> meta_farcasterChannel (nft_metadata n) = Some c)}
   \<and> sorted [''art'', ''memes''] \<and> distinct [''art'', ''memes'']"
  using getChannels_flagged [of "[withChannel True (Some ''memes'') sampleNFT,
                                  withChannel True (Some ''art'') sampleNFT,
                                  withChannel False (Some ''zora'') sampleNFT,
                                  withChannel True (Some []) sampleNFT,
                                  withChannel True (Some ''memes'') sampleNFT]"]
  unfolding getChannels_sample .

text \<open>
  Without the restriction to flagged elements the statement fails: an element that is
  not flagged but carries the channel \<open>zora\<close> contributes nothing to the result.
\<close>

theorem getChannels_counterexample:
  "meta_farcasterChannel (nft_metadata (withChannel False (Some ''zora'') sampleNFT)) =
     Some ''zora''
   \<and> getChannels [withChannel False (Some ''zora'') sampleNFT] = []"
  by (simp add: getChannels_def withChannel_def)

section \<open>Properties of the grid presentation\<close>

lemma set_mapSet: "set (mapSet k v m) \<subseteq> insert (k, v) (set m)"
  by (induction m) (auto split: if_splits)

lemma mapSet_mapSet: "mapSet k v' (mapSet k v m) = mapSet k v' m"
  by (induction m) auto

lemma map_of_mapSet: "map_of (mapSet k v m) = (map_of m)(k \<mapsto> v)"
  by (induction m) auto

lemma groupSizes_mapSet_new:
  "map_of m k = None \<Longrightarrow> groupSizes (mapSet k v m) = groupSizes m + length v"
  by (induction m) (auto simp: groupSizes_def split: if_splits)

lemma groupSizes_mapSet_old:
  "map_of m k = Some g \<Longrightarrow> groupSizes (mapSet k (g @ v) m) = groupSizes m + length v"
  by (induction m) (auto simp: groupSizes_def split: if_splits)

lemma groupsOk_mapSet:
  "groupsOk m \<Longrightarrow> v \<noteq> [] \<Longrightarrow> \<forall>n \<in> set v. coll_address (nft_collection n) = k \<Longrightarrow>
   groupsOk (mapSet k v m)"
  using set_mapSet [of k v m] by (auto simp: groupsOk_def)

lemma groupByCollection_step:
  "groupByCollection m (nft # rest) =
     groupByCollection
       (mapSet (coll_address (nft_collection nft))
          (case map_of m (coll_address (nft_collection nft)) of
             None \<Rightarrow> [nft] | Some g \<Rightarrow> g @ [nft]) m) rest"
  by (auto simp: Let_def map_of_mapSet mapSet_mapSet split: option.splits)

text \<open>The grouping loop never raises, keeps the invariant and files every NFT once.\<close>

lemma groupByCollection_ok:
  "groupsOk m \<Longrightarrow>
   \<exists>m'. groupByCollection m nfts = Inr m' \<and> groupsOk m'
        \<and> groupSizes m' = groupSizes m + length nfts"
proof (induction nfts arbitrary: m)
  case Nil
  then show ?case by simp
next
  case (Cons nft rest)
  let ?k = "coll_address (nft_collection nft)"
  let ?v = "case map_of m ?k of None \<Rightarrow> [nft] | Some g \<Rightarrow> g @ [nft]"
  have ok: "groupsOk (mapSet ?k ?v m)"
  proof (rule groupsOk_mapSet [OF Cons.prems])
    show "?v \<noteq> []" by (simp split: option.splits)
    show "\<forall>n \<in> set ?v. coll_address (nft_collection n) = ?k"
      using Cons.prems by (auto simp: groupsOk_def split: option.splits dest!: map_of_SomeD)
  qed
  have sz: "groupSizes (mapSet ?k ?v m) = groupSizes m + 1"
    using groupSizes_mapSet_new [of m ?k "[nft]"] groupSizes_mapSet_old [of m ?k _ "[nft]"]
    by (auto split: option.splits)
  from Cons.IH [OF ok] sz show ?case
    unfolding groupByCollection_step by auto
qed

lemma set_insertBy: "set (insertBy le x ys) = insert x (set ys)"
  by (induction ys) auto

lemma set_sortBy: "set (sortBy le xs) = set xs"
  by (induction xs) (auto simp: sortBy_def set_insertBy)

lemma sum_insertBy:
  "sum_list (map f (insertBy le x ys)) = (f x :: nat) + sum_list (map f ys)"
  by (induction ys) auto

lemma sum_sortBy: "sum_list (map f (sortBy le xs)) = sum_list (map (f :: 'a \<Rightarrow> nat) xs)"
  by (induction xs) (auto simp: sortBy_def sum_insertBy)

lemma headerCounts_append: "headerCounts (xs @ ys) = headerCounts xs + headerCounts ys"
  by (induction xs rule: headerCounts.induct) auto

lemma headerCounts_items: "headerCounts (map NFTItem g) = 0"
  by (induction g) auto

lemma headerCounts_sections:
  "headerCounts (concat (map (\<lambda>(key, g). sectionItems (t g) g) gs)) = groupSizes gs"
  by (induction gs)
     (auto simp: headerCounts_append headerCounts_items sectionItems_def groupSizes_def)

lemma sectionsByAddress_members:
  "sectionsByAddress (Some k) (map NFTItem g @ items) \<longleftrightarrow>
     (\<forall>n \<in> set g. coll_address (nft_collection n) = k) \<and> sectionsByAddress (Some k) items"
  by (induction g) auto

lemma sectionsByAddress_sections:
  "groupsOk gs \<Longrightarrow>
   sectionsByAddress cur
     (concat (map (\<lambda>(key, g). sectionItems (coll_name (nft_collection (hd g))) g) gs))"
proof (induction gs arbitrary: cur)
  case Nil
  then show ?case by simp
next
  case (Cons p gs)
  obtain k g where p: "p = (k, g)" by (cases p)
  from Cons.prems p obtain x g' where g: "g = x # g'"
    by (cases g) (auto simp: groupsOk_def)
  from Cons.prems p g
  have mem: "\<forall>n \<in> set g'. coll_address (nft_collection n) = coll_address (nft_collection x)"
    by (auto simp: groupsOk_def)
  from Cons.prems have "groupsOk gs" by (simp add: groupsOk_def)
  from Cons.IH [OF this] mem show ?case
    by (simp add: p g sectionItems_def sectionsByAddress_members)
qed

text \<open>
  C4 (as amended). In the \<open>collection\<close> mode \<open>groupAndSortNFTs\<close> returns a display list
  (it never raises) in which the header counts sum to the length of the input list, each
  header's title is the collection name of the element that directly follows it, and
  every element between a header and the next header has the collection address of that
  first element.
\<close>

theorem groupAndSortNFTs_collection:
  "\<exists>items. groupAndSortNFTs localeCompare nfts SortCollection = Inr items
      \<and> headerCounts items = length nfts
      \<and> sectionsByAddress None items"
proof -
  have "groupsOk []" by (simp add: groupsOk_def)
  from groupByCollection_ok [OF this, of nfts]
  obtain m where m: "groupByCollection [] nfts = Inr m" "groupsOk m" "groupSizes m = length nfts"
    by (auto simp: groupSizes_def)
  let ?le = "\<lambda>(ka, a) (kb, b).
               localeCompare (coll_name (nft_collection (hd a)))
                             (coll_name (nft_collection (hd b))) \<le> 0"
  have ne: "\<not> list_ex (\<lambda>(key, grp). grp = []) m"
    using m(2) by (auto simp: groupsOk_def list_ex_iff)
  have ok: "groupsOk (sortBy ?le m)"
    using m(2) by (simp add: groupsOk_def set_sortBy)
  have sz: "groupSizes (sortBy ?le m) = length nfts"
    using m(3) by (simp add: groupSizes_def sum_sortBy)
  show ?thesis
    using m(1) ne sectionsByAddress_sections [OF ok, of None]
      headerCounts_sections [of "\<lambda>g. coll_name (nft_collection (hd g))" "sortBy ?le m"] sz
    by (simp add: groupAndSortNFTs_def Let_def)
qed

lemma collection_example:
  "groupAndSortNFTs compareStrings
     [inCollection ''0xa'' ''Alpha'' sampleNFT, inCollection ''0xa'' ''Beta'' sampleNFT]
     SortCollection
   = Inr [HeaderItem \<lparr> sh_title = ''Alpha'', sh_count = Some 2 \<rparr>,
          NFTItem (inCollection ''0xa'' ''Alpha'' sampleNFT),
          NFTItem (inCollection ''0xa'' ''Beta'' sampleNFT)]"
  by (simp add: groupAndSortNFTs_def inCollection_def sampleNFT_def sortBy_def
      sectionItems_def Let_def)

theorem groupAndSortNFTs_collection_witness:
  "headerCounts [HeaderItem \<lparr> sh_title = ''Alpha'', sh_count = Some 2 \<rparr>,
                 NFTItem (inCollection ''0xa'' ''Alpha'' sampleNFT),
                 NFTItem (inCollection ''0xa'' ''Beta'' sampleNFT)] = 2
   \<and> sectionsByAddress None
        [HeaderItem \<lparr> sh_title = ''Alpha'', sh_count = Some 2 \<rparr>,
         NFTItem (inCollection ''0xa'' ''Alpha'' sampleNFT),
         NFTItem (inCollection ''0xa'' ''Beta'' sampleNFT)]"
  using groupAndSortNFTs_collection [of compareStrings
      "[inCollection ''0xa'' ''Alpha'' sampleNFT, inCollection ''0xa'' ''Beta'' sampleNFT]"]
  unfolding collection_example by auto

text \<open>
  The property as the specification states it, with collection names in place of addresses, fails: two NFTs of
  one contract address with different collection names fall into one section, whose
  title is the first one's name.
\<close>

theorem groupAndSortNFTs_counterexample:
  "groupAndSortNFTs compareStrings
     [inCollection ''0xa'' ''Alpha'' sampleNFT, inCollection ''0xa'' ''Beta'' sampleNFT]
     SortCollection
   = Inr [HeaderItem \<lparr> sh_title = ''Alpha'', sh_count = Some 2 \<rparr>,
          NFTItem (inCollection ''0xa'' ''Alpha'' sampleNFT),
          NFTItem (inCollection ''0xa'' ''Beta'' sampleNFT)]
   \<and> \<not> membersMatchTitle None
         [HeaderItem \<lparr> sh_title = ''Alpha'', sh_count = Some 2 \<rparr>,
          NFTItem (inCollection ''0xa'' ''Alpha'' sampleNFT),
          NFTItem (inCollection ''0xa'' ''Beta'' sampleNFT)]"
  by (simp add: collection_example) (simp add: inCollection_def)

section \<open>Properties of the store\<close>

subsection \<open>Updating one NFT\<close>

text \<open>
  C8. When the id is not in the NFT map, \<open>updateNFT\<close> returns the store state unchanged.
  When it is, the record stored under the id is the field-wise merge of the existing
  record with the update: each of its fifteen fields is the update's value if the update
  carries the field (also when that value is \<open>undefined\<close>), and the existing record's
  value otherwise. Every other entry of the map and the rest of the state stay as they
  were.
\<close>

theorem updateNFT_merge:
  "(map_of (st_nfts state) ident = None \<longrightarrow> updateNFT ident updates state = state)
   \<and> (\<forall>existing. map_of (st_nfts state) ident = Some existing \<longrightarrow>
         (\<exists>merged.
            map_of (st_nfts (updateNFT ident updates state)) ident = Some merged
            \<and> obj_id merged = (case up_id updates of None \<Rightarrow> obj_id existing | Some v \<Rightarrow> v)
            \<and> obj_walletId merged =
                (case up_walletId updates of None \<Rightarrow> obj_walletId existing | Some v \<Rightarrow> v)
            \<and> obj_chain merged =
                (case up_chain updates of None \<Rightarrow> obj_chain existing | Some v \<Rightarrow> v)
            \<and> obj_evmChain merged =
                (case up_evmChain updates of None \<Rightarrow> obj_evmChain existing | Some v \<Rightarrow> v)
            \<and> obj_contractAddress merged =
                (case up_contractAddress updates of
                   None \<Rightarrow> obj_contractAddress existing | Some v \<Rightarrow> v)
            \<and> obj_tokenId merged =
                (case up_tokenId updates of None \<Rightarrow> obj_tokenId existing | Some v \<Rightarrow> v)
            \<and> obj_name merged =
                (case up_name updates of None \<Rightarrow> obj_name existing | Some v \<Rightarrow> v)
            \<and> obj_description merged =
                (case up_description updates of
                   None \<Rightarrow> obj_description existing | Some v \<Rightarrow> v)
            \<and> obj_image merged =
                (case up_image updates of None \<Rightarrow> obj_image existing | Some v \<Rightarrow> v)
            \<and> obj_imageOptimized merged =
                (case up_imageOptimized updates of
                   None \<Rightarrow> obj_imageOptimized existing | Some v \<Rightarrow> v)
            \<and> obj_animationUrl merged =
                (case up_animationUrl updates of
                   None \<Rightarrow> obj_animationUrl existing | Some v \<Rightarrow> v)
            \<and> obj_externalUrl merged =
                (case up_externalUrl updates of
                   None \<Rightarrow> obj_externalUrl existing | Some v \<Rightarrow> v)
            \<and> obj_collection merged =
                (case up_collection updates of None \<Rightarrow> obj_collection existing | Some v \<Rightarrow> v)
            \<and> obj_metadata merged =
                (case up_metadata updates of None \<Rightarrow> obj_metadata existing | Some v \<Rightarrow> v)
            \<and> obj_lastFetched merged =
                (case up_lastFetched updates of
                   None \<Rightarrow> obj_lastFetched existing | Some v \<Rightarrow> v))
         \<and> (\<forall>k. k \<noteq> ident \<longrightarrow>
                map_of (st_nfts (updateNFT ident updates state)) k = map_of (st_nfts state) k)
         \<and> updateNFT ident updates state =
             state\<lparr> st_nfts := st_nfts (updateNFT ident updates state) \<rparr>)"
  by (simp add: updateNFT_def map_of_mapSet mergeNFT_def spread_def)

lemma fst_addNFT: "fst (addNFT maps x) = mapSet (nft_id x) (toObject x) (fst maps)"
  by (simp add: addNFT_def Let_def split: option.splits)

lemma sampleState_nfts: "st_nfts sampleState = [(''evm:base:0xaa:1'', toObject storedNFT)]"
  by (simp add: sampleState_def setNFTs_def deleteWalletNFTs_def fst_addNFT initialState_def
      storedNFT_def sampleNFT_def Let_def)

text \<open>
  An update of a missing id changes nothing. An update of the stored sample record that
  sets the name and the fetch time, clears the description and sets the token id to
  \<open>undefined\<close> stores exactly the record with these four fields replaced.
\<close>

theorem updateNFT_merge_witness:
  "map_of (st_nfts sampleState) ''missing'' = None
   \<and> updateNFT ''missing'' sampleUpdates sampleState = sampleState
   \<and> map_of (st_nfts sampleState) ''evm:base:0xaa:1'' = Some (toObject storedNFT)
   \<and> map_of (st_nfts (updateNFT ''evm:base:0xaa:1'' sampleUpdates sampleState))
        ''evm:base:0xaa:1'' =
       Some \<lparr> obj_id = Some ''evm:base:0xaa:1'', obj_walletId = Some ''w1'',
              obj_chain = Some Evm, obj_evmChain = Some Base,
              obj_contractAddress = Some ''0xaa'', obj_tokenId = None,
              obj_name = Some ''Two'', obj_description = None, obj_image = Some [],
              obj_imageOptimized = None, obj_animationUrl = None, obj_externalUrl = None,
              obj_collection = Some (nft_collection sampleNFT),
              obj_metadata = Some (nft_metadata sampleNFT),
              obj_lastFetched = Some 5 \<rparr>"
proof -
  have a: "map_of (st_nfts sampleState) ''missing'' = None"
    by (simp add: sampleState_nfts)
  have b: "map_of (st_nfts sampleState) ''evm:base:0xaa:1'' = Some (toObject storedNFT)"
    by (simp add: sampleState_nfts)
  from updateNFT_merge [of sampleState "''evm:base:0xaa:1''" sampleUpdates] b
  obtain merged where
    m: "map_of (st_nfts (updateNFT ''evm:base:0xaa:1'' sampleUpdates sampleState))
          ''evm:base:0xaa:1'' = Some merged"
    and f: "obj_id merged = Some ''evm:base:0xaa:1''" "obj_walletId merged = Some ''w1''"
      "obj_chain merged = Some Evm" "obj_evmChain merged = Some Base"
      "obj_contractAddress merged = Some ''0xaa''" "obj_tokenId merged = None"
      "obj_name merged = Some ''Two''" "obj_description merged = None"
      "obj_image merged = Some []" "obj_imageOptimized merged = None"
      "obj_animationUrl merged = None" "obj_externalUrl merged = None"
      "obj_collection merged = Some (nft_collection sampleNFT)"
      "obj_metadata merged = Some (nft_metadata sampleNFT)"
      "obj_lastFetched merged = Some 5"
    by (auto simp: sampleUpdates_def noUpdates_def toObject_def storedNFT_def sampleNFT_def)
  from f have "merged =
       \<lparr> obj_id = Some ''evm:base:0xaa:1'', obj_walletId = Some ''w1'',
         obj_chain = Some Evm, obj_evmChain = Some Base,
         obj_contractAddress = Some ''0xaa'', obj_tokenId = None,
         obj_name = Some ''Two'', obj_description = None, obj_image = Some [],
         obj_imageOptimized = None, obj_animationUrl = None, obj_externalUrl = None,
         obj_collection = Some (nft_collection sampleNFT),
         obj_metadata = Some (nft_metadata sampleNFT),
         obj_lastFetched = Some 5 \<rparr>"
    by (cases merged) simp
  with m a b updateNFT_merge [of sampleState "''missing''" sampleUpdates]
  show ?thesis by simp
qed

subsection \<open>Adding a wallet\<close>

text \<open>
  C10 (as amended). \<open>addWallet\<close> appends exactly one wallet, with \<open>isActive\<close> true and the
  generated id, after the existing wallets, which stay as they were. The active wallet
  id is kept when it was set to a non-empty string, and becomes the new wallet's id when
  it was unset or the empty string.
\<close>

theorem addWallet_appends:
  "st_wallets (addWallet idTime rnd addedAt wallet state) =
     st_wallets state @ [newWallet idTime rnd addedAt wallet]
   \<and> w_isActive (newWallet idTime rnd addedAt wallet) = Some True
   \<and> w_id (newWallet idTime rnd addedAt wallet) = newWalletId idTime rnd
   \<and> (truthy (st_activeWalletId state) \<longrightarrow>
        st_activeWalletId (addWallet idTime rnd addedAt wallet state) = st_activeWalletId state)
   \<and> (\<not> truthy (st_activeWalletId state) \<longrightarrow>
        st_activeWalletId (addWallet idTime rnd addedAt wallet state) =
          Some (newWalletId idTime rnd))"
  by (simp add: addWallet_def newWallet_def orStr_def)

lemma newWalletId_sample: "newWalletId 17 ''k3j9x'' = ''wallet_17_k3j9x''"
  by code_simp

theorem addWallet_appends_witness:
  "\<not> truthy (st_activeWalletId initialState)
   \<and> st_activeWalletId (addWallet 17 ''k3j9x'' 18 sampleWallet initialState) =
       Some ''wallet_17_k3j9x''
   \<and> truthy (st_activeWalletId (initialState\<lparr> st_activeWalletId := Some ''wallet_1_a'' \<rparr>))
   \<and> st_activeWalletId (addWallet 17 ''k3j9x'' 18 sampleWallet
        (initialState\<lparr> st_activeWalletId := Some ''wallet_1_a'' \<rparr>)) = Some ''wallet_1_a''"
  using addWallet_appends [of 17 "''k3j9x''" 18 sampleWallet initialState]
    addWallet_appends [of 17 "''k3j9x''" 18 sampleWallet
      "initialState\<lparr> st_activeWalletId := Some ''wallet_1_a'' \<rparr>"]
  by (simp add: truthy_def initialState_def newWalletId_sample)

text \<open>
  An active wallet id that is set to the empty string is falsy, so \<open>addWallet\<close> replaces
  it although it was set.
\<close>

theorem addWallet_counterexample:
  "st_activeWalletId (initialState\<lparr> st_activeWalletId := Some [] \<rparr>) = Some []
   \<and> st_activeWalletId (addWallet 17 ''k3j9x'' 18 sampleWallet
        (initialState\<lparr> st_activeWalletId := Some [] \<rparr>)) = Some ''wallet_17_k3j9x''"
  by (simp add: addWallet_def orStr_def truthy_def initialState_def newWalletId_sample)

subsection \<open>Replacing the NFTs of a wallet\<close>

lemma set_deleteFold:
  "set (foldl (\<lambda>m nft. case obj_id nft of None \<Rightarrow> m | Some i \<Rightarrow> mapDelete i m) m ns) =
     {(k, v) \<in> set m. Some k \<notin> obj_id ` set ns}"
proof (induction ns arbitrary: m)
  case Nil
  then show ?case by simp
next
  case (Cons n ns)
  show ?case
    by (cases "obj_id n") (auto simp: Cons.IH mapDelete_def)
qed

lemma deleteWalletNFTs_subset: "set (deleteWalletNFTs w m) \<subseteq> set m"
  by (auto simp: deleteWalletNFTs_def set_deleteFold)

lemma deleteWalletNFTs_none:
  "keyedFor w m \<Longrightarrow>
   filter (\<lambda>nft. obj_walletId nft = Some w) (map snd (deleteWalletNFTs w m)) = []"
  by (force simp: keyedFor_def deleteWalletNFTs_def set_deleteFold filter_empty_conv
      list_all_iff)

lemma keyedFor_subset: "keyedFor w m \<Longrightarrow> set m' \<subseteq> set m \<Longrightarrow> keyedFor w m'"
  by (auto simp: keyedFor_def list_all_iff)

lemma addNFT_keyed: "keyedFor w (fst maps) \<Longrightarrow> keyedFor w (fst (addNFT maps x))"
  using set_mapSet [of "nft_id x" "toObject x" "fst maps"]
  by (auto simp: fst_addNFT keyedFor_def list_all_iff toObject_def)

lemma foldl_addNFT_keyed: "keyedFor w (fst maps) \<Longrightarrow> keyedFor w (fst (foldl addNFT maps xs))"
  by (induction xs arbitrary: maps) (auto simp: addNFT_keyed)

lemma setNFTs_keyed:
  "keyedFor w (st_nfts state) \<Longrightarrow> keyedFor w (st_nfts (setNFTs w xs state))"
  using foldl_addNFT_keyed [of w "(deleteWalletNFTs w (st_nfts state), st_collections state)" xs]
    keyedFor_subset [OF _ deleteWalletNFTs_subset, of w "st_nfts state"]
  by (simp add: setNFTs_def Let_def)

lemma setNFTs_empty:
  "keyedFor w (st_nfts state) \<Longrightarrow> getNFTsByWallet w (setNFTs w [] state) = []"
  by (simp add: setNFTs_def getNFTsByWallet_def deleteWalletNFTs_none)

lemma setNFTs_empty_collections: "st_collections (setNFTs w [] state) = st_collections state"
  by (simp add: setNFTs_def)

lemma addNFT_has_collection:
  "map_of (snd maps) k \<noteq> None \<or> k = collectionId x \<Longrightarrow> map_of (snd (addNFT maps x)) k \<noteq> None"
  by (auto simp: addNFT_def Let_def map_of_mapSet split: option.splits)

lemma foldl_addNFT_has_collection:
  "map_of (snd maps) k \<noteq> None \<or> k \<in> collectionId ` set xs \<Longrightarrow>
   map_of (snd (foldl addNFT maps xs)) k \<noteq> None"
proof (induction xs arbitrary: maps)
  case Nil
  then show ?case by simp
next
  case (Cons x xs)
  show ?case
  proof (cases "map_of (snd maps) k \<noteq> None \<or> k = collectionId x")
    case True
    from addNFT_has_collection [OF True] show ?thesis
      using Cons.IH [of "addNFT maps x"] by simp
  next
    case False
    with Cons.prems have "k \<in> collectionId ` set xs" by auto
    then show ?thesis using Cons.IH [of "addNFT maps x"] by simp
  qed
qed

text \<open>
  Where the records of the wallet are stored under their own ids (whatever the records
  of other wallets look like), the two calls do what the specification says: no stored
  NFT has the wallet's id afterwards, the second call leaves the Collection aggregates
  exactly as the first call left them, and every NFT of the first call still has its
  aggregate.
\<close>

lemma setNFTs_then_clear_keyed:
  assumes "keyedFor walletId (st_nfts state)"
  shows "getNFTsByWallet walletId (setNFTs walletId [] (setNFTs walletId xs state)) = []
         \<and> st_collections (setNFTs walletId [] (setNFTs walletId xs state)) =
             st_collections (setNFTs walletId xs state)
         \<and> (\<forall>x \<in> set xs.
               map_of (st_collections (setNFTs walletId [] (setNFTs walletId xs state)))
                 (collectionId x) \<noteq> None)"
proof -
  have "keyedFor walletId (st_nfts (setNFTs walletId xs state))"
    using assms by (rule setNFTs_keyed)
  then have "getNFTsByWallet walletId (setNFTs walletId [] (setNFTs walletId xs state)) = []"
    by (rule setNFTs_empty)
  moreover have "\<forall>x \<in> set xs.
      map_of (st_collections (setNFTs walletId xs state)) (collectionId x) \<noteq> None"
    using foldl_addNFT_has_collection
      [of "(deleteWalletNFTs walletId (st_nfts state), st_collections state)" _ xs]
    by (simp add: setNFTs_def Let_def)
  ultimately show ?thesis
    by (simp add: setNFTs_empty_collections)
qed

lemma setNFTs_then_clear_keyed_example:
  "keyedFor ''w1'' (st_nfts sampleState)
   \<and> getNFTsByWallet ''w1'' (setNFTs ''w1'' [] (setNFTs ''w1'' [sampleNFT] sampleState)) = []
   \<and> st_collections (setNFTs ''w1'' [] (setNFTs ''w1'' [sampleNFT] sampleState)) =
        st_collections (setNFTs ''w1'' [sampleNFT] sampleState)"
proof -
  have k: "keyedFor ''w1'' (st_nfts sampleState)"
    by (simp add: keyedFor_def sampleState_nfts toObject_def storedNFT_def sampleNFT_def)
  from setNFTs_then_clear_keyed [OF k, of "[sampleNFT]"] k show ?thesis
    by auto
qed

lemma skewedState_nfts:
  "st_nfts skewedState = [(''k1'', (toObject sampleNFT)\<lparr> obj_id := Some ''k2'' \<rparr>)]"
  by (simp add: skewedState_def updateNFT_def setNFTs_def deleteWalletNFTs_def fst_addNFT
      mergeNFT_def noUpdates_def spread_def initialState_def toObject_def sampleNFT_def Let_def)

text \<open>
  C2. After \<open>setNFTs(walletId, X)\<close> followed by \<open>setNFTs(walletId, [])\<close> the store should
  hold no NFT of that wallet. The code does not achieve this in \<open>skewedState\<close>, which the
  store's own operations reach: there the record of wallet \<open>w1\<close> is stored under \<open>k1\<close>
  and has the id \<open>k2\<close>. The step commented \<open>Remove old NFTs for this wallet\<close> deletes the
  key \<open>k2\<close>, which is not in the map, so after both calls the record is still in the
  store and \<open>getNFTsByWallet\<close> still returns it.
\<close>

theorem setNFTs_then_clear_skewed:
  "getNFTsByWallet ''w1'' skewedState = [(toObject sampleNFT)\<lparr> obj_id := Some ''k2'' \<rparr>]
   \<and> getNFTsByWallet ''w1'' (setNFTs ''w1'' [] (setNFTs ''w1'' [sampleNFT] skewedState)) =
       [(toObject sampleNFT)\<lparr> obj_id := Some ''k2'' \<rparr>]"
  by (simp add: getNFTsByWallet_def setNFTs_def deleteWalletNFTs_def mapDelete_def fst_addNFT
      skewedState_nfts toObject_def sampleNFT_def Let_def)

end
